theory Spec2Isabelle
  imports Main "HOL-Library.Word"
begin

section \<open>Python values and strings\<close>

text \<open>
  The validators of \<^verbatim>\<open>shared/config.py\<close> that are declared with \<^verbatim>\<open>pre=True\<close>
  receive the raw input of the field: a string when it comes from the environment, any
  Python value when it is passed to the constructor. The raw input is a \<open>pyval\<close>.
  A Python \<^verbatim>\<open>str\<close> is a \<open>string\<close>, a \<open>char\<close> being a code point below 256.
\<close>

datatype pyval =
    PNone
  | PBool bool
  | PInt int
  | PStr string
  | PList "pyval list"

datatype exn =
    ValueError string
  | NotImplementedError string
  | HTTPException nat string

text \<open>\<^verbatim>\<open>s.startswith(p)\<close>\<close>

definition startswith :: "string \<Rightarrow> string \<Rightarrow> bool" where
  "startswith s p \<longleftrightarrow> take (length p) s = p"

text \<open>
  \<^verbatim>\<open>str.isspace\<close> on one character: tab, line feed, vertical tab, form feed,
  carriage return, the four separators 0x1C to 0x1F, the space, the next-line control
  0x85 and the no-break space 0xA0.
\<close>

definition py_isspace :: "char \<Rightarrow> bool" where
  "py_isspace c \<longleftrightarrow>
     c \<in> set [CHR 0x09, CHR 0x0A, CHR 0x0B, CHR 0x0C, CHR 0x0D,
               CHR 0x1C, CHR 0x1D, CHR 0x1E, CHR 0x1F, CHR 0x20, CHR 0x85, CHR 0xA0]"

text \<open>\<^verbatim>\<open>s.lstrip()\<close>, \<^verbatim>\<open>s.rstrip()\<close> and \<^verbatim>\<open>s.strip()\<close> with no argument.\<close>

definition py_lstrip :: "string \<Rightarrow> string" where
  "py_lstrip s = dropWhile py_isspace s"

definition py_rstrip :: "string \<Rightarrow> string" where
  "py_rstrip s = rev (dropWhile py_isspace (rev s))"

definition py_strip :: "string \<Rightarrow> string" where
  "py_strip s = py_rstrip (py_lstrip s)"

text \<open>
  \<^verbatim>\<open>s.upper()\<close>, character by character: the letters a to z move to A to Z, the
  Latin-1 letters 0xE0 to 0xFE (the division sign 0xF7 apart) move down by 0x20, the
  sharp s 0xDF becomes \<^verbatim>\<open>SS\<close>, and every other character stays. The upper-case forms
  of the micro sign 0xB5 and of the y with diaeresis 0xFF are code points above 255,
  which a \<open>char\<close> cannot hold: the two stay as they are here.
\<close>

definition py_upper_char :: "char \<Rightarrow> char" where
  "py_upper_char c =
     (let n = (of_char c :: nat)
      in if 97 \<le> n \<and> n \<le> 122 then char_of (n - 32)
         else if 224 \<le> n \<and> n \<le> 254 \<and> n \<noteq> 247 then char_of (n - 32)
         else c)"

definition py_upper :: "string \<Rightarrow> string" where
  "py_upper s = concat (map (\<lambda>c. if c = CHR 0xDF then ''SS'' else [py_upper_char c]) s)"

text \<open>
  \<^verbatim>\<open>s.split(sep)\<close> for a separator of one character, as a scan from the left:
  \<open>cur\<close> holds the field being read, reversed. Every occurrence of the separator ends a
  field, so the empty string gives one empty field.
\<close>

fun split_scan :: "char \<Rightarrow> string \<Rightarrow> string \<Rightarrow> string list" where
  "split_scan sep cur [] = [rev cur]"
| "split_scan sep cur (c # cs) =
     (if c = sep then rev cur # split_scan sep [] cs
      else split_scan sep (c # cur) cs)"

definition py_split :: "string \<Rightarrow> char \<Rightarrow> string list" where
  "py_split s sep = split_scan sep [] s"

text \<open>\<^verbatim>\<open>sep.join(ws)\<close> for a separator of one character.\<close>

fun py_join :: "char \<Rightarrow> string list \<Rightarrow> string" where
  "py_join sep [] = []"
| "py_join sep [w] = w"
| "py_join sep (w # ws) = w @ sep # py_join sep ws"

section \<open>Settings: the field validators\<close>

text \<open>
  \<^verbatim>\<open>
  @validator("ALLOWED_ORIGINS", pre=True)
  def parse_allowed_origins(cls, v):
      if isinstance(v, str):
          return [origin.strip() for origin in v.split(",")]
      return v
  \<close>
  and the same for methods (with \<^verbatim>\<open>.upper()\<close>), headers and hosts.
\<close>

fun parse_allowed_origins :: "pyval \<Rightarrow> pyval" where
  "parse_allowed_origins (PStr v) =
     PList (map (\<lambda>origin. PStr (py_strip origin)) (py_split v CHR '',''))"
| "parse_allowed_origins v = v"

fun parse_allowed_methods :: "pyval \<Rightarrow> pyval" where
  "parse_allowed_methods (PStr v) =
     PList (map (\<lambda>method. PStr (py_upper (py_strip method))) (py_split v CHR '',''))"
| "parse_allowed_methods v = v"

fun parse_allowed_headers :: "pyval \<Rightarrow> pyval" where
  "parse_allowed_headers (PStr v) =
     PList (map (\<lambda>header. PStr (py_strip header)) (py_split v CHR '',''))"
| "parse_allowed_headers v = v"

fun parse_allowed_hosts :: "pyval \<Rightarrow> pyval" where
  "parse_allowed_hosts (PStr v) =
     PList (map (\<lambda>host. PStr (py_strip host)) (py_split v CHR '',''))"
| "parse_allowed_hosts v = v"

text \<open>
  \<^verbatim>\<open>
  @validator("DATABASE_URL", pre=True)
  def validate_database_url(cls, v):
      if isinstance(v, str) and not v.startswith("postgresql"):
          raise ValueError("DATABASE_URL must be a PostgreSQL URL")
      return v
  \<close>
\<close>

fun validate_database_url :: "pyval \<Rightarrow> exn + pyval" where
  "validate_database_url (PStr v) =
     (if \<not> startswith v ''postgresql''
      then Inl (ValueError ''DATABASE_URL must be a PostgreSQL URL'')
      else Inr (PStr v))"
| "validate_database_url v = Inr v"

text \<open>
  \<^verbatim>\<open>
  @validator("SECRET_KEY", "JWT_SECRET_KEY")
  def validate_secret_keys(cls, v):
      if v in ["your-super-secret-key-change-in-production",
               "jwt-secret-key-change-in-production"]:
          raise ValueError("Please change the default secret key in production")
      return v
  \<close>
  The validator is not a \<^verbatim>\<open>pre\<close> one: it runs on the field's value after the
  coercion to \<^verbatim>\<open>str\<close>.
\<close>

definition validate_secret_keys :: "string \<Rightarrow> exn + string" where
  "validate_secret_keys v =
     (if v \<in> set [''your-super-secret-key-change-in-production'',
                    ''jwt-secret-key-change-in-production'']
      then Inl (ValueError ''Please change the default secret key in production'')
      else Inr v)"

section \<open>Settings: the fields\<close>

datatype log_level = LOG_DEBUG | LOG_INFO | LOG_WARNING | LOG_ERROR | LOG_CRITICAL

record Settings =
  APP_NAME :: string
  APP_VERSION :: string
  DEBUG :: bool
  HOST :: string
  PORT :: int
  RELOAD :: bool
  LOG_LEVEL :: log_level
  SECRET_KEY :: string
  JWT_SECRET_KEY :: string
  JWT_ALGORITHM :: string
  ACCESS_TOKEN_EXPIRE_MINUTES :: int
  DATABASE_URL :: string
  DATABASE_ECHO :: bool
  REDIS_URL :: string
  ALLOWED_ORIGINS :: "string list"
  ALLOWED_METHODS :: "string list"
  ALLOWED_HEADERS :: "string list"
  ALLOWED_HOSTS :: "string list"
  SMTP_HOST :: string
  SMTP_PORT :: int
  SMTP_USER :: string
  SMTP_PASSWORD :: string
  SMTP_FROM :: string
  CELERY_BROKER_URL :: string
  CELERY_RESULT_BACKEND :: string
  SENTRY_DSN :: string
  PROMETHEUS_ENABLED :: bool
  MAX_UPLOAD_SIZE :: int
  UPLOAD_DIR :: string
  DEFAULT_PAGE_SIZE :: int
  MAX_PAGE_SIZE :: int
  FEATURE_USER_REGISTRATION :: bool
  FEATURE_EMAIL_VERIFICATION :: bool
  FEATURE_RATE_LIMITING :: bool

text \<open>
  The settings object when only the three required fields (\<^verbatim>\<open>Field(...)\<close>) are given:
  every other field has the default of its declaration.
\<close>

definition default_settings :: "string \<Rightarrow> string \<Rightarrow> string \<Rightarrow> Settings" where
  "default_settings secret_key jwt_secret_key database_url = \<lparr>
     APP_NAME = ''FastAPI Vertical Slice'',
     APP_VERSION = ''0.1.0'',
     DEBUG = False,
     HOST = ''0.0.0.0'',
     PORT = 8000,
     RELOAD = False,
     LOG_LEVEL = LOG_INFO,
     SECRET_KEY = secret_key,
     JWT_SECRET_KEY = jwt_secret_key,
     JWT_ALGORITHM = ''HS256'',
     ACCESS_TOKEN_EXPIRE_MINUTES = 30,
     DATABASE_URL = database_url,
     DATABASE_ECHO = False,
     REDIS_URL = ''redis://localhost:6379/0'',
     ALLOWED_ORIGINS = [''http://localhost:3000'', ''http://localhost:8000''],
     ALLOWED_METHODS = [''GET'', ''POST'', ''PUT'', ''DELETE'', ''PATCH''],
     ALLOWED_HEADERS = [''*''],
     ALLOWED_HOSTS = [''*''],
     SMTP_HOST = '''',
     SMTP_PORT = 587,
     SMTP_USER = '''',
     SMTP_PASSWORD = '''',
     SMTP_FROM = '''',
     CELERY_BROKER_URL = ''redis://localhost:6379/1'',
     CELERY_RESULT_BACKEND = ''redis://localhost:6379/2'',
     SENTRY_DSN = '''',
     PROMETHEUS_ENABLED = False,
     MAX_UPLOAD_SIZE = 10485760,
     UPLOAD_DIR = ''uploads/'',
     DEFAULT_PAGE_SIZE = 20,
     MAX_PAGE_SIZE = 100,
     FEATURE_USER_REGISTRATION = True,
     FEATURE_EMAIL_VERIFICATION = False,
     FEATURE_RATE_LIMITING = True \<rparr>"

section \<open>Settings: construction\<close>

text \<open>
  The scheme of a URL, in the words of the specification ("its scheme is not
  PostgreSQL"): the text before the first colon, read as a URL parser reads it, without
  the control characters and spaces in front and in lower case. The source never
  computes it. A PostgreSQL scheme is \<^verbatim>\<open>postgres\<close> or \<^verbatim>\<open>postgresql\<close>, the latter alone
  or followed by a driver as in \<^verbatim>\<open>postgresql+asyncpg\<close>. A string without a colon
  and a value that is not a string have no scheme.
\<close>

definition ascii_lower_char :: "char \<Rightarrow> char" where
  "ascii_lower_char c =
     (let n = (of_char c :: nat)
      in if 65 \<le> n \<and> n \<le> 90 then char_of (n + 32) else c)"

definition spec_url_scheme :: "string \<Rightarrow> string option" where
  "spec_url_scheme s =
     (let t = dropWhile (\<lambda>c. (of_char c :: nat) \<le> 32) s
      in if CHR '':'' \<in> set t
         then Some (map ascii_lower_char (takeWhile (\<lambda>c. c \<noteq> CHR '':'') t))
         else None)"

definition spec_scheme_is_postgresql :: "string \<Rightarrow> bool" where
  "spec_scheme_is_postgresql s \<longleftrightarrow>
     (case spec_url_scheme s of
        None \<Rightarrow> False
      | Some scheme \<Rightarrow>
          scheme = ''postgres'' \<or> scheme = ''postgresql'' \<or>
          startswith scheme ''postgresql+'')"


text \<open>
  What the construction of the settings reports for one field: the exception a validator
  of this module raised, or the refusal of the value by the field's declared type.
\<close>

datatype line_error = validator_error exn | type_error

text \<open>
  Modelled from the spec: the type \<^verbatim>\<open>PostgresDsn\<close> of the declaration
  \<^verbatim>\<open>DATABASE_URL: PostgresDsn = Field(...)\<close>, which is pydantic's and not part of this
  repository. "A PostgreSQL connection string", "the database URI scheme must be
  PostgreSQL": the type refuses every value that is not a string with a PostgreSQL
  scheme. Whatever else it asks of the URL (a host, a well-formed authority) is the
  parameter \<open>wellformed\<close>.
\<close>

fun PostgresDsn_validate :: "(string \<Rightarrow> bool) \<Rightarrow> pyval \<Rightarrow> line_error + string" where
  "PostgresDsn_validate wellformed (PStr s) =
     (if spec_scheme_is_postgresql s \<and> wellformed s then Inr s else Inl type_error)"
| "PostgresDsn_validate wellformed v = Inl type_error"

text \<open>
  Modelled from the spec: what pydantic does with the declarations of the class when
  it builds the object ("given a set of key/value environment inputs, produce a typed
  configuration object or fail with a validation error").
  \<^verbatim>\<open>@validator("DATABASE_URL", pre=True)\<close> runs on the raw input, before the check of
  the field's type, which sees what the validator returned.
  \<^verbatim>\<open>@validator("SECRET_KEY", "JWT_SECRET_KEY")\<close> runs on the string of either field.
\<close>

definition DATABASE_URL_field :: "(string \<Rightarrow> bool) \<Rightarrow> pyval \<Rightarrow> line_error + string" where
  "DATABASE_URL_field wellformed v =
     (case validate_database_url v of
        Inl e \<Rightarrow> Inl (validator_error e)
      | Inr v' \<Rightarrow> PostgresDsn_validate wellformed v')"

definition secret_key_field :: "string \<Rightarrow> line_error + string" where
  "secret_key_field v =
     (case validate_secret_keys v of
        Inl e \<Rightarrow> Inl (validator_error e)
      | Inr v' \<Rightarrow> Inr v')"

fun errors_of :: "line_error + 'a \<Rightarrow> line_error list" where
  "errors_of (Inl e) = [e]"
| "errors_of (Inr x) = []"

text \<open>
  Modelled from the spec: \<^verbatim>\<open>Settings()\<close> from an environment that sets the three
  required fields. Every field is checked, in the order of the class, and the
  construction fails with the errors of all of them (a \<^verbatim>\<open>ValidationError\<close>, here
  \<open>Inl\<close> of its errors) unless every field passes; the other fields take the defaults of
  their declarations.
\<close>

definition Settings_construct ::
  "(string \<Rightarrow> bool) \<Rightarrow> string \<Rightarrow> string \<Rightarrow> pyval \<Rightarrow> line_error list + Settings" where
  "Settings_construct wellformed secret_key jwt_secret_key database_url =
     (let r1 = secret_key_field secret_key;
          r2 = secret_key_field jwt_secret_key;
          r3 = DATABASE_URL_field wellformed database_url
      in case (r1, r2, r3) of
           (Inr sk, Inr jk, Inr url) \<Rightarrow> Inr (default_settings sk jk url)
         | _ \<Rightarrow> Inl (errors_of r1 @ errors_of r2 @ errors_of r3))"

section \<open>Responses, status codes and routes\<close>

text \<open>A JSON object as the handlers build it: a dict literal, keys in the order written.\<close>

datatype json = JStr string | JBool bool

type_synonym dict = "(string \<times> json) list"

definition HTTP_200_OK :: nat where "HTTP_200_OK = 200"
definition HTTP_201_CREATED :: nat where "HTTP_201_CREATED = 201"
definition HTTP_204_NO_CONTENT :: nat where "HTTP_204_NO_CONTENT = 204"
definition HTTP_400_BAD_REQUEST :: nat where "HTTP_400_BAD_REQUEST = 400"
definition HTTP_404_NOT_FOUND :: nat where "HTTP_404_NOT_FOUND = 404"

text \<open>
  A route as its decorator declares it: \<^verbatim>\<open>@app.get("/health")\<close> names no status code,
  \<^verbatim>\<open>@router.post("/", status_code=status.HTTP_201_CREATED)\<close> names one. A handler that
  returns answers with the declared code, with 200 when none is declared.
\<close>

datatype http_method = GET | POST | PUT | DELETE

record route =
  verb :: http_method
  path :: string
  status_code :: "nat option"

definition success_status :: "route \<Rightarrow> nat" where
  "success_status r = (case status_code r of None \<Rightarrow> HTTP_200_OK | Some c \<Rightarrow> c)"

definition health_route :: route where
  "health_route = \<lparr> verb = GET, path = ''/health'', status_code = None \<rparr>"

section \<open>main.py: the health check\<close>

text \<open>
  \<^verbatim>\<open>
  @app.get("/health")
  async def health_check():
      return {"status": "healthy", "app": settings.APP_NAME,
              "version": settings.APP_VERSION, "debug": settings.DEBUG}
  \<close>
  The handler reads the module's settings object, here its argument.
\<close>

definition health_check :: "Settings \<Rightarrow> exn + dict" where
  "health_check settings = Inr
     [(''status'', JStr ''healthy''),
      (''app'', JStr (APP_NAME settings)),
      (''version'', JStr (APP_VERSION settings)),
      (''debug'', JBool (DEBUG settings))]"

section \<open>shared/exceptions.py: the catch-all handler\<close>

text \<open>
  \<^verbatim>\<open>
  @app.exception_handler(Exception)
  async def general_exception_handler(request, exc):
      return {"error": "Internal server error"}
  \<close>
\<close>

definition general_exception_handler :: "'request \<Rightarrow> 'exc \<Rightarrow> dict" where
  "general_exception_handler request exc = [(''error'', JStr ''Internal server error'')]"

section \<open>users: schemas, service and routes\<close>

type_synonym UUID = "128 word"

text \<open>A \<^verbatim>\<open>datetime\<close> as microseconds since the epoch; no handler computes with it.\<close>

type_synonym datetime = int

record UserUpdate =
  email :: "string option"
  first_name :: "string option"
  last_name :: "string option"
  is_active :: "bool option"

record UserBase =
  email :: string
  first_name :: string
  last_name :: string
  is_active :: bool

record UserCreate = UserBase +
  password :: string

record UserRead = UserBase +
  id' :: UUID
  created_at :: datetime
  updated_at :: datetime

text \<open>
  \<^verbatim>\<open>users/service.py\<close>: the service holds the session and nothing else; every method is
  a placeholder.
  \<^verbatim>\<open>
  async def get_users(self, skip=0, limit=10):        return []
  async def get_user_by_id(self, user_id):            return None
  async def get_user_by_email(self, email):           return None
  async def create_user(self, user_data):
      raise NotImplementedError("User creation not implemented")
  async def update_user(self, user_id, user_data):    return None
  async def delete_user(self, user_id):               return False
  \<close>
\<close>

record 'db UserService =
  db :: 'db

definition UserService_get_users :: "'db UserService \<Rightarrow> int \<Rightarrow> int \<Rightarrow> UserRead list" where
  "UserService_get_users self skip limit = []"

definition UserService_get_user_by_id :: "'db UserService \<Rightarrow> UUID \<Rightarrow> UserRead option" where
  "UserService_get_user_by_id self user_id = None"

definition UserService_get_user_by_email :: "'db UserService \<Rightarrow> string \<Rightarrow> UserRead option" where
  "UserService_get_user_by_email self email' = None"

definition UserService_create_user :: "'db UserService \<Rightarrow> UserCreate \<Rightarrow> exn + UserRead" where
  "UserService_create_user self user_data =
     Inl (NotImplementedError ''User creation not implemented'')"

definition UserService_update_user ::
  "'db UserService \<Rightarrow> UUID \<Rightarrow> UserUpdate \<Rightarrow> UserRead option" where
  "UserService_update_user self user_id user_data = None"

definition UserService_delete_user :: "'db UserService \<Rightarrow> UUID \<Rightarrow> bool" where
  "UserService_delete_user self user_id = False"

text \<open>
  \<^verbatim>\<open>users/api.py\<close>. A handler returns its value (\<open>Inr\<close>) or raises (\<open>Inl\<close>). The test
  \<^verbatim>\<open>if not user\<close> on an \<^verbatim>\<open>Optional[UserRead]\<close> is the test for \<^verbatim>\<open>None\<close>: a model
  instance is truthy. The handlers' parameter \<^verbatim>\<open>db\<close> is \<open>session\<close> here, \<open>db\<close> being the
  field of the service; the methods of \<^verbatim>\<open>UserService\<close> carry the class name, the
  handlers keep their own.
\<close>

definition get_users :: "int \<Rightarrow> int \<Rightarrow> 'db \<Rightarrow> exn + UserRead list" where
  "get_users skip limit session =
     (let service = \<lparr> db = session \<rparr>;
          users = UserService_get_users service skip limit
      in Inr users)"

definition get_user :: "UUID \<Rightarrow> 'db \<Rightarrow> exn + UserRead" where
  "get_user user_id session =
     (let service = \<lparr> db = session \<rparr>
      in case UserService_get_user_by_id service user_id of
           None \<Rightarrow> Inl (HTTPException HTTP_404_NOT_FOUND ''User not found'')
         | Some user \<Rightarrow> Inr user)"

definition create_user :: "UserCreate \<Rightarrow> 'db \<Rightarrow> exn + UserRead" where
  "create_user user_data session =
     (let service = \<lparr> db = session \<rparr>
      in case UserService_get_user_by_email service (email user_data) of
           Some existing_user \<Rightarrow>
             Inl (HTTPException HTTP_400_BAD_REQUEST ''Email already registered'')
         | None \<Rightarrow> UserService_create_user service user_data)"

definition update_user :: "UUID \<Rightarrow> UserUpdate \<Rightarrow> 'db \<Rightarrow> exn + UserRead" where
  "update_user user_id user_data session =
     (let service = \<lparr> db = session \<rparr>
      in case UserService_update_user service user_id user_data of
           None \<Rightarrow> Inl (HTTPException HTTP_404_NOT_FOUND ''User not found'')
         | Some user \<Rightarrow> Inr user)"

definition delete_user :: "UUID \<Rightarrow> 'db \<Rightarrow> exn + unit" where
  "delete_user user_id session =
     (let service = \<lparr> db = session \<rparr>;
          success = UserService_delete_user service user_id
      in if \<not> success
         then Inl (HTTPException HTTP_404_NOT_FOUND ''User not found'')
         else Inr ())"

section \<open>Splitting, joining and stripping\<close>

lemma split_scan_not_Nil: "split_scan sep cur s \<noteq> []"
  by (induction s arbitrary: cur) auto

lemma py_join_Cons: "ws \<noteq> [] \<Longrightarrow> py_join sep (w # ws) = w @ sep # py_join sep ws"
  by (cases ws) auto

text \<open>Joining the fields with the separator gives the scanned text back.\<close>

lemma py_join_split_scan: "py_join sep (split_scan sep cur s) = rev cur @ s"
proof (induction s arbitrary: cur)
  case Nil
  show ?case by simp
next
  case (Cons c cs)
  show ?case
  proof (cases "c = sep")
    case True
    then show ?thesis
      using Cons.IH [of "[]"] by (simp add: py_join_Cons split_scan_not_Nil)
  next
    case False
    then show ?thesis
      using Cons.IH [of "c # cur"] by simp
  qed
qed

lemma py_join_py_split: "py_join sep (py_split s sep) = s"
  by (simp add: py_split_def py_join_split_scan)

text \<open>No field holds the separator, and there is one field more than separators.\<close>

lemma split_scan_no_sep:
  "sep \<notin> set cur \<Longrightarrow> \<forall>w \<in> set (split_scan sep cur s). sep \<notin> set w"
proof (induction s arbitrary: cur)
  case Nil
  then show ?case by simp
next
  case (Cons c cs)
  show ?case
  proof (cases "c = sep")
    case True
    with Cons.prems Cons.IH [of "[]"] show ?thesis by simp
  next
    case False
    with Cons.prems Cons.IH [of "c # cur"] show ?thesis by simp
  qed
qed

lemma py_split_no_sep: "w \<in> set (py_split s sep) \<Longrightarrow> sep \<notin> set w"
  unfolding py_split_def using split_scan_no_sep [of sep "[]" s] by simp

lemma length_split_scan: "length (split_scan sep cur s) = Suc (count_list s sep)"
  by (induction s arbitrary: cur) auto

lemma length_py_split: "length (py_split s sep) = Suc (count_list s sep)"
  by (simp add: py_split_def length_split_scan)

text \<open>
  Stripping removes a run of whitespace at each end and nothing else, and what is left
  neither starts nor ends with whitespace.
\<close>

lemma py_lstrip_decomp: "takeWhile py_isspace s @ py_lstrip s = s"
  by (simp add: py_lstrip_def)

lemma py_rstrip_decomp: "py_rstrip s @ rev (takeWhile py_isspace (rev s)) = s"
proof -
  have "rev (takeWhile py_isspace (rev s) @ dropWhile py_isspace (rev s)) = s"
    by simp
  then show ?thesis
    unfolding py_rstrip_def rev_append .
qed

lemma py_strip_decomp:
  "takeWhile py_isspace s @ py_strip s @ rev (takeWhile py_isspace (rev (py_lstrip s))) = s"
  using py_rstrip_decomp [of "py_lstrip s"] py_lstrip_decomp [of s]
  by (simp add: py_strip_def)

lemma py_lstrip_hd: "py_lstrip s \<noteq> [] \<Longrightarrow> \<not> py_isspace (hd (py_lstrip s))"
  unfolding py_lstrip_def using hd_dropWhile [of py_isspace s] by simp

lemma py_rstrip_last: "py_rstrip s \<noteq> [] \<Longrightarrow> \<not> py_isspace (last (py_rstrip s))"
  unfolding py_rstrip_def using hd_dropWhile [of py_isspace "rev s"]
  by (simp add: last_rev)

lemma py_rstrip_hd: "py_rstrip s \<noteq> [] \<Longrightarrow> hd (py_rstrip s) = hd s"
  using py_rstrip_decomp [of s] by (metis hd_append2)

lemma py_strip_ends:
  assumes "py_strip s \<noteq> []"
  shows "\<not> py_isspace (hd (py_strip s)) \<and> \<not> py_isspace (last (py_strip s))"
proof -
  from assms have ne: "py_rstrip (py_lstrip s) \<noteq> []"
    by (simp add: py_strip_def)
  then have "py_lstrip s \<noteq> []"
    by (auto simp: py_rstrip_def)
  then have "\<not> py_isspace (hd (py_lstrip s))"
    by (rule py_lstrip_hd)
  with py_rstrip_hd [OF ne] have "\<not> py_isspace (hd (py_strip s))"
    by (simp add: py_strip_def)
  moreover from py_rstrip_last [OF ne] have "\<not> py_isspace (last (py_strip s))"
    by (simp add: py_strip_def)
  ultimately show ?thesis by simp
qed

section \<open>Settings validation\<close>

text \<open>
  The validator alone: it raises on a string without the prefix \<^verbatim>\<open>postgresql\<close> and
  returns every other value unchanged, also a string such as
  \<^verbatim>\<open>postgresqlx://localhost/db\<close>, whose scheme is not a PostgreSQL one.
\<close>

lemma validate_database_url_cases:
  "(\<not> startswith s ''postgresql'' \<longrightarrow>
      validate_database_url (PStr s) =
        Inl (ValueError ''DATABASE_URL must be a PostgreSQL URL'')) \<and>
   (startswith s ''postgresql'' \<longrightarrow> validate_database_url (PStr s) = Inr (PStr s)) \<and>
   ((\<forall>t. v \<noteq> PStr t) \<longrightarrow> validate_database_url v = Inr v)"
proof -
  have "(\<forall>t. v \<noteq> PStr t) \<longrightarrow> validate_database_url v = Inr v"
    by (cases v) simp_all
  then show ?thesis by simp
qed

lemma validate_database_url_unchanged:
  "validate_database_url v = Inr v' \<Longrightarrow> v' = v"
  by (cases v) (auto split: if_splits)

lemma validate_database_url_postgresqlx:
  "spec_url_scheme ''postgresqlx://localhost/db'' = Some ''postgresqlx'' \<and>
   \<not> spec_scheme_is_postgresql ''postgresqlx://localhost/db'' \<and>
   validate_database_url (PStr ''postgresqlx://localhost/db'') =
     Inr (PStr ''postgresqlx://localhost/db'')"
  by code_simp


text \<open>
  The field passes exactly when the validator returns the input and the type accepts
  it; the construction passes exactly when the three fields do.
\<close>

lemma DATABASE_URL_field_Inr_iff:
  "DATABASE_URL_field wellformed v = Inr url \<longleftrightarrow>
     validate_database_url v = Inr v \<and> PostgresDsn_validate wellformed v = Inr url"
proof (cases "validate_database_url v")
  case (Inl e)
  then show ?thesis by (simp add: DATABASE_URL_field_def)
next
  case (Inr v')
  with validate_database_url_unchanged [of v v'] show ?thesis
    by (simp add: DATABASE_URL_field_def)
qed


lemma Settings_construct_Inr_iff:
  "Settings_construct wellformed secret_key jwt_secret_key v = Inr settings \<longleftrightarrow>
     (\<exists>sk jk url. secret_key_field secret_key = Inr sk \<and>
        secret_key_field jwt_secret_key = Inr jk \<and>
        DATABASE_URL_field wellformed v = Inr url \<and>
        settings = default_settings sk jk url)"
  by (auto simp: Settings_construct_def Let_def split: sum.splits)

text \<open>A PostgreSQL URL and two secrets of one's own give the settings object.\<close>

lemma Settings_construct_example:
  "Settings_construct (\<lambda>s. True) ''k3y-from-the-vault'' ''jwt-k3y-from-the-vault''
       (PStr ''postgresql+asyncpg://localhost/app'') =
     Inr (default_settings ''k3y-from-the-vault'' ''jwt-k3y-from-the-vault''
       ''postgresql+asyncpg://localhost/app'')"
  by code_simp



text \<open>
  C2. A value of \<^verbatim>\<open>SECRET_KEY\<close> or \<^verbatim>\<open>JWT_SECRET_KEY\<close> that equals either of the two
  placeholder literals makes \<open>validate_secret_keys\<close> raise, and so the construction of
  the settings fail; every other value is returned unchanged. One validator serves both
  fields, so each field refuses both literals.
\<close>

theorem validate_secret_keys_placeholders:
  "(v = ''your-super-secret-key-change-in-production'' \<or>
    v = ''jwt-secret-key-change-in-production'' \<longrightarrow>
      validate_secret_keys v =
        Inl (ValueError ''Please change the default secret key in production'')) \<and>
   (v \<noteq> ''your-super-secret-key-change-in-production'' \<and>
    v \<noteq> ''jwt-secret-key-change-in-production'' \<longrightarrow>
      validate_secret_keys v = Inr v)"
  unfolding validate_secret_keys_def by simp

theorem validate_secret_keys_placeholders_witness:
  "validate_secret_keys ''your-super-secret-key-change-in-production'' =
     Inl (ValueError ''Please change the default secret key in production'') \<and>
   validate_secret_keys ''jwt-secret-key-change-in-production'' =
     Inl (ValueError ''Please change the default secret key in production'') \<and>
   ''k3y-from-the-vault'' \<noteq> ''your-super-secret-key-change-in-production'' \<and>
   ''k3y-from-the-vault'' \<noteq> ''jwt-secret-key-change-in-production'' \<and>
   validate_secret_keys ''k3y-from-the-vault'' = Inr ''k3y-from-the-vault''"
  using validate_secret_keys_placeholders [of "''your-super-secret-key-change-in-production''"]
    validate_secret_keys_placeholders [of "''jwt-secret-key-change-in-production''"]
    validate_secret_keys_placeholders [of "''k3y-from-the-vault''"]
  by simp

text \<open>
  C6. The string \<^verbatim>\<open>"a, b"\<close> as \<^verbatim>\<open>ALLOWED_ORIGINS\<close> gives the list \<^verbatim>\<open>["a", "b"]\<close>.
  For every string the result is the list of its comma-separated fields (joined by
  commas they give the string back), each stripped of the whitespace around it, in the
  order of the string.
\<close>

theorem parse_allowed_origins_a_b:
  "parse_allowed_origins (PStr ''a, b'') = PList [PStr ''a'', PStr ''b''] \<and>
   parse_allowed_origins (PStr s) = PList (map PStr (map py_strip (py_split s CHR '',''))) \<and>
   py_join CHR '','' (py_split s CHR '','') = s"
proof -
  have "parse_allowed_origins (PStr ''a, b'') = PList [PStr ''a'', PStr ''b'']"
    by code_simp
  then show ?thesis
    by (simp add: py_join_py_split)
qed

text \<open>
  C7. The string \<^verbatim>\<open>"get,post"\<close> as \<^verbatim>\<open>ALLOWED_METHODS\<close> gives the list
  \<^verbatim>\<open>["GET", "POST"]\<close>. For every string the result is the list of its comma-separated
  fields, each stripped and then upper-cased, in the order of the string.
\<close>

theorem parse_allowed_methods_get_post:
  "parse_allowed_methods (PStr ''get,post'') = PList [PStr ''GET'', PStr ''POST''] \<and>
   parse_allowed_methods (PStr s) =
     PList (map PStr (map py_upper (map py_strip (py_split s CHR '','')))) \<and>
   py_join CHR '','' (py_split s CHR '','') = s"
proof -
  have "parse_allowed_methods (PStr ''get,post'') = PList [PStr ''GET'', PStr ''POST'']"
    by code_simp
  then show ?thesis
    by (simp add: py_join_py_split)
qed

text \<open>
  C10. On the empty string each of the four list parsers returns the list with one
  element, the empty string, and not the empty list: the empty string has one
  comma-separated field.
\<close>

theorem parsers_empty_string:
  "parse_allowed_origins (PStr '''') = PList [PStr ''''] \<and>
   parse_allowed_methods (PStr '''') = PList [PStr ''''] \<and>
   parse_allowed_headers (PStr '''') = PList [PStr ''''] \<and>
   parse_allowed_hosts (PStr '''') = PList [PStr ''''] \<and>
   PList [PStr ''''] \<noteq> PList []"
  by code_simp

section \<open>The health check and the catch-all handler\<close>

text \<open>
  C8, as stated, fails on the number of fields: the record of \<open>health_check\<close> has four
  fields, not three. With the default settings it is
  \<^verbatim>\<open>{"status": "healthy", "app": "FastAPI Vertical Slice", "version": "0.1.0",
  "debug": false}\<close>.
\<close>

theorem health_check_three_fields_counterexample:
  "health_check (default_settings ''k3y-from-the-vault'' ''jwt-k3y-from-the-vault''
       ''postgresql+asyncpg://localhost/app'') =
     Inr [(''status'', JStr ''healthy''), (''app'', JStr ''FastAPI Vertical Slice''),
          (''version'', JStr ''0.1.0''), (''debug'', JBool False)] \<and>
   length [(''status'', JStr ''healthy''), (''app'', JStr ''FastAPI Vertical Slice''),
           (''version'', JStr ''0.1.0''), (''debug'', JBool False)] \<noteq> 3"
  by (simp add: health_check_def default_settings_def)

text \<open>
  C8 (amended). For every settings object \<open>health_check\<close> returns, without raising, a
  record of exactly four fields: \<^verbatim>\<open>status\<close>, the constant \<^verbatim>\<open>"healthy"\<close>, and
  \<^verbatim>\<open>app\<close>, \<^verbatim>\<open>version\<close> and \<^verbatim>\<open>debug\<close>, the name, the version and the debug flag of the
  settings object. Its route declares no status code, so the answer is an HTTP 200.
\<close>

theorem health_check_four_fields:
  "health_check settings =
     Inr [(''status'', JStr ''healthy''), (''app'', JStr (APP_NAME settings)),
          (''version'', JStr (APP_VERSION settings)), (''debug'', JBool (DEBUG settings))] \<and>
   (\<exists>d. health_check settings = Inr d \<and>
        map fst d = [''status'', ''app'', ''version'', ''debug''] \<and> length d = 4) \<and>
   success_status health_route = 200"
  by (simp add: health_check_def success_status_def health_route_def HTTP_200_OK_def)

text \<open>
  C9. For every request and every exception \<open>general_exception_handler\<close> returns the
  payload \<^verbatim>\<open>{"error": "Internal server error"}\<close>: an \<^verbatim>\<open>HTTPException\<close> with any status
  code and detail gets the same answer as any other exception on any other request.
\<close>

theorem general_exception_handler_generic:
  "general_exception_handler request exc = [(''error'', JStr ''Internal server error'')] \<and>
   general_exception_handler request (HTTPException code detail) =
     general_exception_handler request' exc'"
  by (simp add: general_exception_handler_def)

section \<open>The user routes over the placeholder service\<close>

text \<open>
  C3. For every \<^verbatim>\<open>UserCreate\<close> payload the \<open>create_user\<close> handler raises the
  \<^verbatim>\<open>NotImplementedError\<close> of the service. The lookup by email returns \<^verbatim>\<open>None\<close> for every
  email, so the handler never raises the HTTP 400 "Email already registered".
\<close>

theorem create_user_not_implemented:
  "create_user user_data session =
     Inl (NotImplementedError ''User creation not implemented'') \<and>
   UserService_get_user_by_email \<lparr> db = session \<rparr> e = None \<and>
   create_user user_data session \<noteq>
     Inl (HTTPException HTTP_400_BAD_REQUEST ''Email already registered'')"
  by (simp add: create_user_def UserService_get_user_by_email_def UserService_create_user_def)

text \<open>
  C4. For every \<^verbatim>\<open>user_id\<close> the \<open>get_user\<close> handler raises an \<^verbatim>\<open>HTTPException\<close> with
  status 404 and detail "User not found": the lookup by id returns \<^verbatim>\<open>None\<close> for every id.
\<close>

theorem get_user_not_found:
  "UserService_get_user_by_id \<lparr> db = session \<rparr> user_id = None \<and>
   get_user user_id session = Inl (HTTPException 404 ''User not found'')"
  by (simp add: get_user_def UserService_get_user_by_id_def HTTP_404_NOT_FOUND_def)

text \<open>
  C5. For every \<^verbatim>\<open>user_id\<close> the \<open>delete_user\<close> handler raises an \<^verbatim>\<open>HTTPException\<close>
  with status 404: the service's \<^verbatim>\<open>delete_user\<close> returns \<^verbatim>\<open>False\<close> for every id.
\<close>

theorem delete_user_not_found:
  "UserService_delete_user \<lparr> db = session \<rparr> user_id = False \<and>
   delete_user user_id session = Inl (HTTPException 404 ''User not found'')"
  by (simp add: delete_user_def UserService_delete_user_def HTTP_404_NOT_FOUND_def)

end
